theory Spec2Isabelle
  imports Main "HOL-Library.AList"
begin

section \<open>JavaScript values shared by the embeddings\<close>

text \<open>
  The embedding follows \<^verbatim>\<open>frontend/assets/js/api.js\<close>, \<^verbatim>\<open>gallery.js\<close> and
  \<^verbatim>\<open>upload.js\<close>. A JavaScript \<^verbatim>\<open>Map\<close> and a plain object are association lists in
  insertion order: \<^const>\<open>AList.update\<close> is \<^verbatim>\<open>Map.prototype.set\<close> (an existing key keeps its
  place and gets the new value, a new key goes to the end) and \<^const>\<open>AList.delete\<close> is
  \<^verbatim>\<open>Map.prototype.delete\<close>. The clock \<^verbatim>\<open>Date.now()\<close> is an explicit argument, in
  milliseconds.
\<close>

datatype 'v jsval = JsNull | JsVal 'v

section \<open>CacheManager (api.js, lines 499-553)\<close>

record 'v cache_item =
  item_value :: "'v jsval"
  timestamp :: int
  item_maxAge :: int

record ('k, 'v) CacheManager =
  cache :: "('k \<times> 'v cache_item) list"
  maxAge :: int
  maxSize :: nat

text \<open>The constructor: an empty map, five minutes, one hundred entries.\<close>

definition new_CacheManager :: "('k, 'v) CacheManager" where
  "new_CacheManager = \<lparr>cache = [], maxAge = 5 * 60 * 1000, maxSize = 100\<rparr>"

text \<open>
  The first statement of \<^verbatim>\<open>set\<close>: when \<^verbatim>\<open>cache.size >= maxSize\<close> the first key of the
  map's iteration order is deleted. On an empty map \<^verbatim>\<open>keys().next().value\<close> is
  \<^verbatim>\<open>undefined\<close> and the delete does nothing.
\<close>

definition evict_if_full :: "('k, 'v) CacheManager \<Rightarrow> ('k, 'v) CacheManager" where
  "evict_if_full c =
     (if length (cache c) \<ge> maxSize c then
        (case cache c of
           [] \<Rightarrow> c
         | (firstKey, _) # _ \<Rightarrow> c\<lparr>cache := AList.delete firstKey (cache c)\<rparr>)
      else c)"

text \<open>
  \<^verbatim>\<open>set(key, value, maxAge = this.maxAge)\<close>: the third argument is optional, \<open>None\<close> is
  the call with two arguments.
\<close>

definition CacheManager_set ::
  "('k, 'v) CacheManager \<Rightarrow> int \<Rightarrow> 'k \<Rightarrow> 'v jsval \<Rightarrow> int option \<Rightarrow> ('k, 'v) CacheManager" where
  "CacheManager_set c now key v maxAge_arg =
     (let c1 = evict_if_full c;
          item = \<lparr>item_value = v, timestamp = now,
                  item_maxAge = (case maxAge_arg of None \<Rightarrow> maxAge c | Some m \<Rightarrow> m)\<rparr>
      in c1\<lparr>cache := AList.update key item (cache c1)\<rparr>)"

text \<open>\<^verbatim>\<open>get(key)\<close> returns the value, or \<^verbatim>\<open>null\<close>, together with the cache it leaves.\<close>

definition CacheManager_get ::
  "('k, 'v) CacheManager \<Rightarrow> int \<Rightarrow> 'k \<Rightarrow> 'v jsval \<times> ('k, 'v) CacheManager" where
  "CacheManager_get c now key =
     (case map_of (cache c) key of
        None \<Rightarrow> (JsNull, c)
      | Some item \<Rightarrow>
          if now - timestamp item > item_maxAge item
          then (JsNull, c\<lparr>cache := AList.delete key (cache c)\<rparr>)
          else (item_value item, c))"

text \<open>\<^verbatim>\<open>has(key)\<close> is \<^verbatim>\<open>this.get(key) !== null\<close>.\<close>

definition CacheManager_has ::
  "('k, 'v) CacheManager \<Rightarrow> int \<Rightarrow> 'k \<Rightarrow> bool \<times> ('k, 'v) CacheManager" where
  "CacheManager_has c now key =
     (case CacheManager_get c now key of (v, c') \<Rightarrow> (v \<noteq> JsNull, c'))"

definition CacheManager_delete ::
  "('k, 'v) CacheManager \<Rightarrow> 'k \<Rightarrow> bool \<times> ('k, 'v) CacheManager" where
  "CacheManager_delete c key =
     (map_of (cache c) key \<noteq> None, c\<lparr>cache := AList.delete key (cache c)\<rparr>)"

definition CacheManager_clear :: "('k, 'v) CacheManager \<Rightarrow> ('k, 'v) CacheManager" where
  "CacheManager_clear c = c\<lparr>cache := []\<rparr>"

text \<open>The age test of \<^verbatim>\<open>get\<close>, named for the statements below.\<close>

definition expired :: "'v cache_item \<Rightarrow> int \<Rightarrow> bool" where
  "expired item now = (now - timestamp item > item_maxAge item)"

text \<open>A run of \<^verbatim>\<open>set\<close> calls with two arguments: each is (clock, key, value).\<close>

fun set_all ::
  "('k, 'v) CacheManager \<Rightarrow> (int \<times> 'k \<times> 'v jsval) list \<Rightarrow> ('k, 'v) CacheManager" where
  "set_all c [] = c"
| "set_all c ((now, key, v) # rest) = set_all (CacheManager_set c now key v None) rest"

text \<open>
  A cache at capacity reached through the public interface alone: key 0 is set, key 1 is
  set, key 0 is set again while the cache is far from full, and keys 2 to 99 follow.
\<close>

definition full_cache :: "(nat, nat) CacheManager" where
  "full_cache = set_all new_CacheManager
     ((1, 0, JsVal 0) # (2, 1, JsVal 1) # (3, 0, JsVal 0)
        # map (\<lambda>i. (int i + 2, i, JsVal i)) [2..<100])"

section \<open>HttpClient (api.js, lines 1-178)\<close>

subsection \<open>Strings\<close>

text \<open>\<^verbatim>\<open>s.startsWith(p)\<close> and \<^verbatim>\<open>s.includes(sub)\<close> (\<open>includes\<close> is a keyword of Isabelle).\<close>

definition startsWith :: "string \<Rightarrow> string \<Rightarrow> bool" where
  "startsWith s p = (take (length p) s = p)"

fun str_includes :: "string \<Rightarrow> string \<Rightarrow> bool" where
  "str_includes [] sub = (sub = [])"
| "str_includes (c # cs) sub = (startsWith (c # cs) sub \<or> str_includes cs sub)"

subsection \<open>Errors, responses, requests\<close>

text \<open>
  A thrown \<^verbatim>\<open>Error\<close> object: its \<^verbatim>\<open>name\<close>, its \<^verbatim>\<open>message\<close> and its
  \<^verbatim>\<open>status\<close> (\<open>None\<close> is \<^verbatim>\<open>undefined\<close>, which every comparison with a number makes
  false). \<^verbatim>\<open>throw lastError\<close> can throw \<^verbatim>\<open>undefined\<close>, so a thrown value is either.
\<close>

record js_error =
  err_name :: string
  err_message :: string
  err_status :: "int option"

datatype thrown = ThrownUndefined | Thrown js_error

text \<open>
  What the code reads of a \<^verbatim>\<open>Response\<close>. \<open>jsonError\<close> is \<open>None\<close> when the body parses as
  JSON and otherwise the message of the \<^verbatim>\<open>SyntaxError\<close> that \<^verbatim>\<open>response.json()\<close> throws;
  a parsed body is represented by its text.
\<close>

record response =
  status :: int
  statusText :: string
  contentType :: "string option"
  bodyText :: string
  jsonError :: "string option"

text \<open>The platform's \<^verbatim>\<open>response.ok\<close>: a status from 200 to 299.\<close>

definition ok :: "response \<Rightarrow> bool" where
  "ok r = (200 \<le> status r \<and> status r \<le> 299)"

text \<open>\<^verbatim>\<open>class HttpError\<close> (lines 171-178): \<^verbatim>\<open>new HttpError(status, message, response)\<close>.\<close>

definition HttpError :: "int \<Rightarrow> string \<Rightarrow> js_error" where
  "HttpError st msg = \<lparr>err_name = ''HttpError'', err_message = msg, err_status = Some st\<rparr>"

text \<open>
  The platform's rejections of \<^verbatim>\<open>fetch\<close>: an aborted signal rejects with a
  \<^verbatim>\<open>DOMException\<close> named \<^verbatim>\<open>AbortError\<close>; \<^verbatim>\<open>response.json()\<close> on a body that is not
  JSON throws a \<^verbatim>\<open>SyntaxError\<close>.
\<close>

definition AbortError :: js_error where
  "AbortError = \<lparr>err_name = ''AbortError'', err_message = ''The operation was aborted.'',
                 err_status = None\<rparr>"

definition SyntaxError :: "string \<Rightarrow> js_error" where
  "SyntaxError msg = \<lparr>err_name = ''SyntaxError'', err_message = msg, err_status = None\<rparr>"

datatype fetch_outcome = Resolved response | Rejected js_error

type_synonym headers = "(string \<times> string) list"

datatype body = FormDataBody "(string \<times> string) list" | StringBody string | NullBody

text \<open>
  The argument \<^verbatim>\<open>data\<close> of \<^verbatim>\<open>post\<close>, when it is truthy: a \<^verbatim>\<open>FormData\<close> with its
  fields, or any other value, represented by the text \<^verbatim>\<open>JSON.stringify\<close> gives for it.
\<close>

datatype post_data = FormData "(string \<times> string) list" | PlainData string

text \<open>
  The \<^verbatim>\<open>options\<close> object of a call (\<open>None\<close>: the key is absent) and the \<^verbatim>\<open>config\<close>
  object that \<^verbatim>\<open>request\<close> builds from it and hands to \<^verbatim>\<open>fetch\<close>; \<open>req_method\<close>
  is its key \<^verbatim>\<open>method\<close>.
\<close>

record request_options =
  opt_method :: "string option"
  opt_headers :: "headers option"
  opt_body :: "body option"

record request_config =
  req_method :: string
  headers :: headers
  body :: "body option"

definition no_options :: request_options where
  "no_options = \<lparr>opt_method = None, opt_headers = None, opt_body = None\<rparr>"

subsection \<open>The world a request runs in\<close>

text \<open>
  What a request does besides returning: it calls \<^verbatim>\<open>fetch\<close>, runs interceptors and waits.
  \<open>world\<close> is whatever the interceptors read and write (the token store, for the API
  service); \<open>clock\<close> is the time in milliseconds; \<open>deadline\<close> is the time at which the
  pending timer of \<^verbatim>\<open>setTimeout(() => controller.abort(), this.timeout)\<close> fires, \<open>None\<close>
  once it has fired or \<^verbatim>\<open>clearTimeout\<close> has run; \<open>aborted\<close> is \<^verbatim>\<open>controller.signal.aborted\<close>.
\<close>

datatype event =
    EvRequestInterceptor nat
  | EvFetch string request_config
  | EvResponseInterceptor nat int
  | EvDelay int

record 'w io =
  world :: 'w
  clock :: int
  deadline :: "int option"
  aborted :: bool
  trace :: "event list"

definition log_event :: "event \<Rightarrow> 'w io \<Rightarrow> 'w io" where
  "log_event e s = s\<lparr>trace := trace s @ [e]\<rparr>"

definition clearTimeout :: "'w io \<Rightarrow> 'w io" where
  "clearTimeout s = s\<lparr>deadline := None\<rparr>"

text \<open>
  The delay that \<^verbatim>\<open>setTimeout(f, ms)\<close> keeps. The platform stores it as a signed 32-bit
  number of milliseconds: a delay above 2147483647 does not fit, and the timer fires at
  once. (A negative delay is kept here as it is: its time has come already.)
\<close>

definition timer_delay :: "int \<Rightarrow> int" where
  "timer_delay ms = (if ms > 2147483647 then 0 else ms)"

text \<open>
  The network answers the n-th \<^verbatim>\<open>fetch\<close> of a request after some milliseconds, with a
  response or a rejection.
\<close>

type_synonym network = "nat \<Rightarrow> nat \<times> fetch_outcome"

text \<open>
  \<^verbatim>\<open>await fetch(fullURL, config)\<close> with \<^verbatim>\<open>config.signal\<close>: a signal that is already
  aborted rejects at once; a timer that fires before the answer arrives aborts the signal
  and the call rejects then; otherwise the answer arrives (an answer at the very
  millisecond of the deadline counts as arrived).
\<close>

definition fetch_call :: "network \<Rightarrow> nat \<Rightarrow> string \<Rightarrow> request_config \<Rightarrow> 'w io
    \<Rightarrow> fetch_outcome \<times> 'w io" where
  "fetch_call net n url config s0 =
     (let s = log_event (EvFetch url config) s0 in
      if aborted s then (Rejected AbortError, s)
      else
        (case net n of (d, outcome) \<Rightarrow>
           (case deadline s of
              None \<Rightarrow> (outcome, s\<lparr>clock := clock s + int d\<rparr>)
            | Some dl \<Rightarrow>
                if clock s + int d > dl
                then (Rejected AbortError,
                      s\<lparr>clock := max (clock s) dl, deadline := None, aborted := True\<rparr>)
                else (outcome, s\<lparr>clock := clock s + int d\<rparr>))))"

text \<open>
  \<^verbatim>\<open>await this.delay(ms)\<close> (lines 165-167), which is a \<^verbatim>\<open>setTimeout\<close> of \<open>ms\<close>: the
  clock moves on by the delay the timer keeps (none for a negative one); a timer still
  pending whose time has come by then has fired.
\<close>

definition delay :: "int \<Rightarrow> 'w io \<Rightarrow> 'w io" where
  "delay ms s0 =
     (let s = log_event (EvDelay ms) s0;
          t = clock s + max 0 (timer_delay ms)
      in case deadline s of
           None \<Rightarrow> s\<lparr>clock := t\<rparr>
         | Some dl \<Rightarrow>
             if dl \<le> t then s\<lparr>clock := t, deadline := None, aborted := True\<rparr>
             else s\<lparr>clock := t\<rparr>)"

subsection \<open>The client\<close>

text \<open>
  An interceptor is an async function of the config or the response; it may change the
  world, a request interceptor may change the config, and either may throw.
\<close>

type_synonym 'w request_interceptor =
  "request_config \<Rightarrow> 'w \<Rightarrow> js_error option \<times> request_config \<times> 'w"

type_synonym 'w response_interceptor =
  "response \<Rightarrow> 'w \<Rightarrow> js_error option \<times> 'w"

record 'w HttpClient =
  baseURL :: string
  timeout :: int
  retryAttempts :: int
  retryDelay :: int
  defaultHeaders :: headers
  request_interceptors :: "'w request_interceptor list"
  response_interceptors :: "'w response_interceptor list"

text \<open>The argument of the constructor; \<open>None\<close> is an absent key.\<close>

record client_config =
  cfg_baseURL :: "string option"
  cfg_timeout :: "int option"
  cfg_retryAttempts :: "int option"
  cfg_retryDelay :: "int option"
  cfg_headers :: "headers option"

definition no_config :: client_config where
  "no_config = \<lparr>cfg_baseURL = None, cfg_timeout = None, cfg_retryAttempts = None,
                 cfg_retryDelay = None, cfg_headers = None\<rparr>"

text \<open>Object spread \<^verbatim>\<open>{...a, ...b}\<close> on objects with string values.\<close>

definition spread :: "headers \<Rightarrow> headers \<Rightarrow> headers" where
  "spread a b = fold (\<lambda>(k, v). AList.update k v) b a"

text \<open>
  The constructor (lines 19-33). \<^verbatim>\<open>x || d\<close> takes the default for an absent key, for the
  number 0 and for the empty string.
\<close>

definition new_HttpClient :: "client_config \<Rightarrow> 'w HttpClient" where
  "new_HttpClient config =
     \<lparr>baseURL = (case cfg_baseURL config of
                   None \<Rightarrow> ''http://localhost:5001''
                 | Some u \<Rightarrow> if u = [] then ''http://localhost:5001'' else u),
      timeout = (case cfg_timeout config of
                   None \<Rightarrow> 30000 | Some t \<Rightarrow> if t = 0 then 30000 else t),
      retryAttempts = (case cfg_retryAttempts config of
                   None \<Rightarrow> 3 | Some n \<Rightarrow> if n = 0 then 3 else n),
      retryDelay = (case cfg_retryDelay config of
                   None \<Rightarrow> 1000 | Some d \<Rightarrow> if d = 0 then 1000 else d),
      defaultHeaders = spread [(''Content-Type'', ''application/json'')]
                   (case cfg_headers config of None \<Rightarrow> [] | Some h \<Rightarrow> h),
      request_interceptors = [],
      response_interceptors = []\<rparr>"

definition addRequestInterceptor :: "'w request_interceptor \<Rightarrow> 'w HttpClient \<Rightarrow> 'w HttpClient" where
  "addRequestInterceptor f cl = cl\<lparr>request_interceptors := request_interceptors cl @ [f]\<rparr>"

definition addResponseInterceptor :: "'w response_interceptor \<Rightarrow> 'w HttpClient \<Rightarrow> 'w HttpClient" where
  "addResponseInterceptor f cl = cl\<lparr>response_interceptors := response_interceptors cl @ [f]\<rparr>"

text \<open>
  The two \<^verbatim>\<open>for ... of\<close> loops over the interceptors (lines 51-53 and 72-74); the number
  is the interceptor's place in the list. A throw ends the loop.
\<close>

fun run_request_interceptors :: "'w request_interceptor list \<Rightarrow> nat \<Rightarrow> request_config
    \<Rightarrow> 'w io \<Rightarrow> js_error option \<times> request_config \<times> 'w io" where
  "run_request_interceptors [] i config s = (None, config, s)"
| "run_request_interceptors (f # fs) i config s =
     (let s1 = log_event (EvRequestInterceptor i) s in
      case f config (world s1) of
        (Some e, config', w') \<Rightarrow> (Some e, config', s1\<lparr>world := w'\<rparr>)
      | (None, config', w') \<Rightarrow>
          run_request_interceptors fs (Suc i) config' (s1\<lparr>world := w'\<rparr>))"

fun run_response_interceptors :: "'w response_interceptor list \<Rightarrow> nat \<Rightarrow> response
    \<Rightarrow> 'w io \<Rightarrow> js_error option \<times> 'w io" where
  "run_response_interceptors [] i r s = (None, s)"
| "run_response_interceptors (f # fs) i r s =
     (let s1 = log_event (EvResponseInterceptor i (status r)) s in
      case f r (world s1) of
        (Some e, w') \<Rightarrow> (Some e, s1\<lparr>world := w'\<rparr>)
      | (None, w') \<Rightarrow> run_response_interceptors fs (Suc i) r (s1\<lparr>world := w'\<rparr>))"

text \<open>
  The \<^verbatim>\<open>try\<close> block of one attempt (lines 67-80): the result is the returned response or
  the error that reaches the \<^verbatim>\<open>catch\<close>.
\<close>

definition try_block :: "'w HttpClient \<Rightarrow> network \<Rightarrow> string \<Rightarrow> request_config \<Rightarrow> nat
    \<Rightarrow> 'w io \<Rightarrow> (js_error + response) \<times> 'w io" where
  "try_block cl net fullURL config attempt s =
     (case fetch_call net attempt fullURL config s of
        (Rejected e, s1) \<Rightarrow> (Inl e, s1)
      | (Resolved r, s1) \<Rightarrow>
          (case run_response_interceptors (response_interceptors cl) 0 r (clearTimeout s1) of
             (Some e, s2) \<Rightarrow> (Inl e, s2)
           | (None, s2) \<Rightarrow>
               if \<not> ok r then (Inl (HttpError (status r) (statusText r)), s2)
               else (Inr r, s2)))"

text \<open>The test of line 86 that ends the loop: an abort, or a status from 400 to 499.\<close>

definition no_retry :: "js_error \<Rightarrow> bool" where
  "no_retry e =
     (err_name e = ''AbortError''
      \<or> (case err_status e of None \<Rightarrow> False | Some st \<Rightarrow> st \<ge> 400 \<and> st < 500))"

text \<open>Lines 90-93: the wait before the next attempt, unless this was the last one.\<close>

definition backoff :: "'w HttpClient \<Rightarrow> nat \<Rightarrow> 'w io \<Rightarrow> 'w io" where
  "backoff cl attempt s =
     (if int attempt < retryAttempts cl then delay (retryDelay cl * 2 ^ attempt) s else s)"

text \<open>
  The retry loop (lines 63-98) from a given attempt on, with the \<^verbatim>\<open>lastError\<close> so far.
  Leaving the loop, by \<^verbatim>\<open>break\<close> or by its condition, runs \<^verbatim>\<open>clearTimeout\<close> and throws
  \<^verbatim>\<open>lastError\<close>.
\<close>

function retry_loop :: "'w HttpClient \<Rightarrow> network \<Rightarrow> string \<Rightarrow> request_config \<Rightarrow> nat
    \<Rightarrow> thrown \<Rightarrow> 'w io \<Rightarrow> (thrown + response) \<times> 'w io" where
  "retry_loop cl net fullURL config attempt lastError s =
     (if int attempt \<le> retryAttempts cl then
        (case try_block cl net fullURL config attempt s of
           (Inr r, s1) \<Rightarrow> (Inr r, s1)
         | (Inl e, s1) \<Rightarrow>
             if no_retry e then (Inl (Thrown e), clearTimeout s1)
             else retry_loop cl net fullURL config (Suc attempt) (Thrown e)
                    (backoff cl attempt s1))
      else (Inl lastError, clearTimeout s))"
  by pat_completeness auto
termination
  by (relation "measure (\<lambda>(cl, net, fullURL, config, attempt, lastError, s).
        nat (retryAttempts cl + 1 - int attempt))") auto

text \<open>\<^verbatim>\<open>request(url, options = {})\<close> (lines 43-99).\<close>

definition request :: "'w HttpClient \<Rightarrow> network \<Rightarrow> string \<Rightarrow> request_options \<Rightarrow> 'w io
    \<Rightarrow> (thrown + response) \<times> 'w io" where
  "request cl net url options s =
     (let config = \<lparr>req_method = (case opt_method options of None \<Rightarrow> ''GET'' | Some m \<Rightarrow> m),
                     headers = (case opt_headers options of
                                  None \<Rightarrow> defaultHeaders cl | Some h \<Rightarrow> h),
                     body = opt_body options\<rparr>
      in case run_request_interceptors (request_interceptors cl) 0 config s of
           (Some e, config', s1) \<Rightarrow> (Inl (Thrown e), s1)
         | (None, config', s1) \<Rightarrow>
             let fullURL = (if startsWith url ''http'' then url else baseURL cl @ url);
                 s2 = s1\<lparr>deadline := Some (clock s1 + timer_delay (timeout cl)),
                         aborted := False\<rparr>
             in retry_loop cl net fullURL config' 0 ThrownUndefined s2)"

text \<open>\<^verbatim>\<open>parseResponse\<close> (lines 155-163).\<close>

datatype parsed = ParsedJSON string | ParsedText string

definition parseResponse :: "response \<Rightarrow> thrown + parsed" where
  "parseResponse r =
     (case contentType r of
        None \<Rightarrow> Inr (ParsedText (bodyText r))
      | Some ct \<Rightarrow>
          if str_includes ct ''application/json''
          then (case jsonError r of
                  None \<Rightarrow> Inr (ParsedJSON (bodyText r))
                | Some msg \<Rightarrow> Inl (Thrown (SyntaxError msg)))
          else Inr (ParsedText (bodyText r)))"

text \<open>
  The config that \<^verbatim>\<open>post(url, data = null, options = {})\<close> builds (lines 108-121) and
  passes to \<^verbatim>\<open>request\<close> as its options: \<^verbatim>\<open>{method: 'POST', ...options}\<close>, then for a
  \<^verbatim>\<open>FormData\<close> \<^verbatim>\<open>delete config.headers?.['Content-Type']\<close>, which does nothing when the
  options carry no headers.
\<close>

definition post_config :: "post_data option \<Rightarrow> request_options \<Rightarrow> request_options" where
  "post_config data options =
     (let config = options\<lparr>opt_method :=
                      (case opt_method options of None \<Rightarrow> Some ''POST'' | Some m \<Rightarrow> Some m)\<rparr>
      in case data of
           None \<Rightarrow> config
         | Some (FormData fd) \<Rightarrow>
             config\<lparr>opt_headers := map_option (AList.delete ''Content-Type'') (opt_headers config),
                    opt_body := Some (FormDataBody fd)\<rparr>
         | Some (PlainData json) \<Rightarrow> config\<lparr>opt_body := Some (StringBody json)\<rparr>)"

definition post :: "'w HttpClient \<Rightarrow> network \<Rightarrow> string \<Rightarrow> post_data option \<Rightarrow> request_options
    \<Rightarrow> 'w io \<Rightarrow> (thrown + parsed) \<times> 'w io" where
  "post cl net url data options s =
     (case request cl net url (post_config data options) s of
        (Inl e, s1) \<Rightarrow> (Inl e, s1)
      | (Inr r, s1) \<Rightarrow> (parseResponse r, s1))"

text \<open>\<^verbatim>\<open>delete(url)\<close> (lines 135-140).\<close>

definition HttpClient_delete :: "'w HttpClient \<Rightarrow> network \<Rightarrow> string \<Rightarrow> 'w io
    \<Rightarrow> (thrown + parsed) \<times> 'w io" where
  "HttpClient_delete cl net url s =
     (case request cl net url (no_options\<lparr>opt_method := Some ''DELETE''\<rparr>) s of
        (Inl e, s1) \<Rightarrow> (Inl e, s1)
      | (Inr r, s1) \<Rightarrow> (parseResponse r, s1))"

declare retry_loop.simps [simp del]

section \<open>ApiService (api.js, lines 180-381)\<close>

text \<open>
  \<^verbatim>\<open>localStorage\<close> is the world of the service's interceptors; \<^verbatim>\<open>getItem\<close> of an absent
  key is \<^verbatim>\<open>null\<close>, here \<open>None\<close>.
\<close>

type_synonym localStorage = "(string \<times> string) list"

definition getAuthToken :: "localStorage \<Rightarrow> string option" where
  "getAuthToken ls = map_of ls ''carousel-auth-token''"

definition setAuthToken :: "string \<Rightarrow> localStorage \<Rightarrow> localStorage" where
  "setAuthToken token ls = AList.update ''carousel-auth-token'' token ls"

definition removeAuthToken :: "localStorage \<Rightarrow> localStorage" where
  "removeAuthToken ls = AList.delete ''carousel-auth-token'' ls"

definition handleUnauthorized :: "localStorage \<Rightarrow> localStorage" where
  "handleUnauthorized ls = removeAuthToken ls"

text \<open>
  The two interceptors of \<^verbatim>\<open>setupInterceptors\<close> (lines 187-203). \<^verbatim>\<open>if (token)\<close> is false
  for \<^verbatim>\<open>null\<close> and for the empty string.
\<close>

definition auth_interceptor :: "localStorage request_interceptor" where
  "auth_interceptor config ls =
     (case getAuthToken ls of
        None \<Rightarrow> (None, config, ls)
      | Some token \<Rightarrow>
          if token \<noteq> []
          then (None,
                config\<lparr>headers := AList.update ''Authorization'' (''Bearer '' @ token)
                                    (headers config)\<rparr>,
                ls)
          else (None, config, ls))"

definition unauthorized_interceptor :: "localStorage response_interceptor" where
  "unauthorized_interceptor r ls =
     (if status r = 401 then (None, handleUnauthorized ls) else (None, ls))"

record ApiService =
  client :: "localStorage HttpClient"

definition new_ApiService :: ApiService where
  "new_ApiService =
     \<lparr>client = addResponseInterceptor unauthorized_interceptor
                 (addRequestInterceptor auth_interceptor (new_HttpClient no_config))\<rparr>"

text \<open>
  \<^verbatim>\<open>deleteImage(imageId)\<close> (lines 296-303): the \<^verbatim>\<open>catch\<close> logs and throws the error again.
  The endpoint is \<^verbatim>\<open>API_CONFIG.endpoints.delete\<close>, \<^verbatim>\<open>'/api/images'\<close>.
\<close>

definition ApiService_deleteImage :: "ApiService \<Rightarrow> network \<Rightarrow> string \<Rightarrow> localStorage io
    \<Rightarrow> (thrown + parsed) \<times> localStorage io" where
  "ApiService_deleteImage api net imageId s =
     HttpClient_delete (client api) net (''/api/images'' @ ''/'' @ imageId) s"

text \<open>
  \<^verbatim>\<open>logout()\<close> (lines 363-371): \<^verbatim>\<open>try { await post } catch { log } finally { remove }\<close>.
  The result is \<open>Inr ()\<close> when the promise resolves and \<open>Inl\<close> what it rejects with.
\<close>

definition logout :: "ApiService \<Rightarrow> network \<Rightarrow> localStorage io
    \<Rightarrow> (thrown + unit) \<times> localStorage io" where
  "logout api net s =
     (case post (client api) net (''/api/auth'' @ ''/logout'') None no_options s of
        (Inl e, s1) \<Rightarrow> (Inr (), s1\<lparr>world := removeAuthToken (world s1)\<rparr>)
      | (Inr r, s1) \<Rightarrow> (Inr (), s1\<lparr>world := removeAuthToken (world s1)\<rparr>))"

section \<open>GalleryManager.deleteImage (gallery.js, lines 372-408)\<close>

record image_record =
  img_id :: string
  img_title :: string
  img_filename :: string
  img_size :: nat

record GalleryManager =
  images :: "image_record list"
  filteredImages :: "image_record list"

text \<open>\<^verbatim>\<open>const API_BASE_URL\<close> of the page's main script.\<close>

definition API_BASE_URL :: string where
  "API_BASE_URL = ''http://localhost:5001''"

text \<open>
  What \<^verbatim>\<open>deleteImage\<close> does besides changing the lists: the \<^verbatim>\<open>fetch\<close> with its method
  and URL, the removal of the image's card from the page (of the card with that id, when
  the page has one), the empty state and the toasts.
\<close>

datatype gallery_event =
    GalleryFetch string string
  | CardRemoved string
  | ShowEmptyState
  | GalleryToastSuccess string
  | GalleryToastError string

text \<open>
  The arguments besides the gallery and the image (\<open>img0\<close>) are the user's answer to
  \<^verbatim>\<open>confirm(...)\<close> and the outcome of the one \<^verbatim>\<open>fetch\<close>; the result is the gallery
  left and what was done, in order.
\<close>

definition GalleryManager_deleteImage :: "bool \<Rightarrow> fetch_outcome \<Rightarrow> GalleryManager \<Rightarrow> image_record
    \<Rightarrow> GalleryManager \<times> gallery_event list" where
  "GalleryManager_deleteImage confirmed outcome gm img0 =
     (if \<not> confirmed then (gm, [])
      else
        (let req = GalleryFetch ''DELETE'' (API_BASE_URL @ ''/api/pins/'' @ img_id img0) in
         case outcome of
           Rejected e \<Rightarrow> (gm, [req, GalleryToastError ''Failed to delete image''])
         | Resolved r \<Rightarrow>
             if ok r then
               (let gm' = gm\<lparr>images := filter (\<lambda>img. img_id img \<noteq> img_id img0) (images gm),
                              filteredImages :=
                                filter (\<lambda>img. img_id img \<noteq> img_id img0) (filteredImages gm)\<rparr>
                in (gm', [req, CardRemoved (img_id img0),
                          GalleryToastSuccess ''Image deleted successfully!'']
                         @ (if images gm' = [] then [ShowEmptyState] else [])))
             else (gm, [req, GalleryToastError ''Failed to delete image''])))"

section \<open>UploadManager (upload.js, lines 338-498)\<close>

datatype upload_status = Pending | Uploading | Completed | Failed

text \<open>
  An item of the queue; \<open>Failed\<close> is the status \<^verbatim>\<open>'error'\<close> and \<open>item_error\<close> the field
  \<^verbatim>\<open>error\<close>.
\<close>

record upload_item =
  item_id :: string
  file_name :: string
  file_size :: nat
  file_type :: string
  preview :: "string option"
  item_status :: upload_status
  progress :: nat
  item_error :: "string option"
  meta_title :: string
  meta_description :: string
  meta_tags :: "string list"

record UploadManager =
  uploadQueue :: "upload_item list"
  isUploading :: bool

text \<open>
  The detail of the \<^verbatim>\<open>imageUploaded\<close> event: the server's JSON, or the record made up
  from the item when the upload is simulated (without its random id and its date).
\<close>

datatype upload_result =
    ServerResult string
  | MockResult "string option" string string "string list" nat string

datatype upload_event =
    StatusShown string upload_status
  | UploadFetch string string
  | ImageUploaded upload_result
  | UploadToastSuccess nat
  | UploadToastWarning nat nat
  | ClearCompletedIn nat

text \<open>\<^verbatim>\<open>new Error(message)\<close>.\<close>

definition JsError :: "string \<Rightarrow> js_error" where
  "JsError msg = \<lparr>err_name = ''Error'', err_message = msg, err_status = None\<rparr>"

text \<open>
  The part of \<^verbatim>\<open>uploadFile\<close>'s \<^verbatim>\<open>try\<close> block that can throw (lines 387-402): the
  \<^verbatim>\<open>fetch\<close>, the test of \<^verbatim>\<open>response.ok\<close>, and \<^verbatim>\<open>response.json()\<close>.
\<close>

definition upload_try :: "fetch_outcome \<Rightarrow> js_error + string" where
  "upload_try outcome =
     (case outcome of
        Rejected e \<Rightarrow> Inl e
      | Resolved r \<Rightarrow>
          if \<not> ok r then Inl (JsError (''Upload failed: '' @ statusText r))
          else (case jsonError r of
                  None \<Rightarrow> Inr (bodyText r)
                | Some msg \<Rightarrow> Inl (SyntaxError msg)))"

text \<open>The simulated progress (lines 421-425): 0, 10, ..., 100.\<close>

definition simulate_progress :: "upload_item \<Rightarrow> upload_item" where
  "simulate_progress item = fold (\<lambda>i it. it\<lparr>progress := i\<rparr>) (map (\<lambda>k. 10 * k) [0..<11]) item"

text \<open>
  \<^verbatim>\<open>uploadFile(uploadItem)\<close> (lines 376-451) for a given outcome of its \<^verbatim>\<open>fetch\<close>: the
  result or the error thrown, the item as it is left, and what was done.
\<close>

definition uploadFile :: "fetch_outcome \<Rightarrow> upload_item
    \<Rightarrow> (js_error + upload_result) \<times> upload_item \<times> upload_event list" where
  "uploadFile outcome item =
     (let item1 = item\<lparr>item_status := Uploading\<rparr>;
          ev1 = [StatusShown (item_id item) Uploading,
                 UploadFetch ''POST'' (API_BASE_URL @ ''/api/upload'')]
      in case upload_try outcome of
           Inr result \<Rightarrow>
             (Inr (ServerResult result),
              item1\<lparr>item_status := Completed, progress := 100\<rparr>,
              ev1 @ [StatusShown (item_id item) Completed, ImageUploaded (ServerResult result)])
         | Inl e \<Rightarrow>
             if str_includes (err_message e) ''fetch'' then
               (let item2 = (simulate_progress item1)\<lparr>item_status := Completed\<rparr>;
                    mockResult = MockResult (preview item)
                      (if meta_title item \<noteq> [] then meta_title item else file_name item)
                      (meta_description item) (meta_tags item) (file_size item) (file_name item)
                in (Inr mockResult, item2,
                    ev1 @ [StatusShown (item_id item) Completed, ImageUploaded mockResult]))
             else (Inl e, item1, ev1))"



definition clearCompletedUploads :: "UploadManager \<Rightarrow> UploadManager" where
  "clearCompletedUploads um =
     um\<lparr>uploadQueue := filter (\<lambda>item. item_status item \<noteq> Completed) (uploadQueue um)\<rparr>"

section \<open>Reading a trace, and values for the closed instances\<close>

text \<open>The waits of a trace, in order.\<close>

fun delays_of :: "event list \<Rightarrow> int list" where
  "delays_of [] = []"
| "delays_of (EvDelay ms # evs) = ms # delays_of evs"
| "delays_of (EvRequestInterceptor i # evs) = delays_of evs"
| "delays_of (EvFetch url config # evs) = delays_of evs"
| "delays_of (EvResponseInterceptor i st # evs) = delays_of evs"

text \<open>The calls of \<^verbatim>\<open>fetch\<close> of a trace, in order: the URL and the config of each.\<close>

fun fetches_of :: "event list \<Rightarrow> (string \<times> request_config) list" where
  "fetches_of [] = []"
| "fetches_of (EvFetch url config # evs) = (url, config) # fetches_of evs"
| "fetches_of (EvDelay ms # evs) = fetches_of evs"
| "fetches_of (EvRequestInterceptor i # evs) = fetches_of evs"
| "fetches_of (EvResponseInterceptor i st # evs) = fetches_of evs"

text \<open>A state in which nothing has happened yet, and a JSON response of a given status.\<close>

definition fresh_io :: "'w \<Rightarrow> 'w io" where
  "fresh_io w = \<lparr>world = w, clock = 0, deadline = None, aborted = False, trace = []\<rparr>"

definition json_response :: "int \<Rightarrow> string \<Rightarrow> response" where
  "json_response st txt =
     \<lparr>status = st, statusText = txt, contentType = Some ''application/json'',
      bodyText = ''{}'', jsonError = None\<rparr>"

text \<open>A gallery record, a pending upload item, and uploads of which the second fails.\<close>

definition demo_image :: image_record where
  "demo_image = \<lparr>img_id = ''1'', img_title = ''Beautiful Landscape'',
                 img_filename = ''landscape.jpg'', img_size = 156789\<rparr>"



section \<open>Properties of the cache\<close>

lemma map_of_set_same:
  "map_of (cache (CacheManager_set c now k v m)) k =
     Some \<lparr>item_value = v, timestamp = now,
           item_maxAge = (case m of None \<Rightarrow> maxAge c | Some x \<Rightarrow> x)\<rparr>"
  by (simp add: CacheManager_set_def Let_def update_conv')

lemma maxAge_evict [simp]: "maxAge (evict_if_full c) = maxAge c"
  by (simp add: evict_if_full_def split: list.splits)

lemma maxSize_evict [simp]: "maxSize (evict_if_full c) = maxSize c"
  by (simp add: evict_if_full_def split: list.splits)

text \<open>
  C6. A value stored with \<^verbatim>\<open>set(k, v)\<close> is what \<^verbatim>\<open>get(k)\<close> returns as long as no more
  than the maximum age has passed (at once, when the maximum age is not negative, as the
  constructor's is), and the cache is left as it was; once more than the maximum age has
  passed, \<^verbatim>\<open>get(k)\<close> returns \<^verbatim>\<open>null\<close>, the entry is deleted by the lookup, and a later
  \<^verbatim>\<open>has(k)\<close>, at any time, is false.
\<close>

theorem C6_set_get_then_expiry:
  fixes c :: "('k, 'v) CacheManager" and now later after :: int and k :: 'k
    and v :: "'v jsval" and m :: "int option"
  defines "c1 \<equiv> CacheManager_set c now k v m"
  defines "age \<equiv> (case m of None \<Rightarrow> maxAge c | Some x \<Rightarrow> x)"
  shows "(later - now \<le> age \<longrightarrow> CacheManager_get c1 later k = (v, c1))
       \<and> (later - now > age \<longrightarrow>
            CacheManager_get c1 later k = (JsNull, c1\<lparr>cache := AList.delete k (cache c1)\<rparr>)
          \<and> map_of (cache (snd (CacheManager_get c1 later k))) k = None
          \<and> fst (CacheManager_has (snd (CacheManager_get c1 later k)) after k) = False)"
proof -
  have stored: "map_of (cache c1) k = Some \<lparr>item_value = v, timestamp = now, item_maxAge = age\<rparr>"
    unfolding c1_def age_def by (rule map_of_set_same)
  have fresh: "later - now \<le> age \<Longrightarrow> CacheManager_get c1 later k = (v, c1)"
    using stored by (simp add: CacheManager_get_def)
  have stale: "later - now > age \<Longrightarrow>
      CacheManager_get c1 later k = (JsNull, c1\<lparr>cache := AList.delete k (cache c1)\<rparr>)"
    using stored by (simp add: CacheManager_get_def)
  have gone: "map_of (cache (c1\<lparr>cache := AList.delete k (cache c1)\<rparr>)) k = None"
    by (simp add: delete_conv')
  have miss: "fst (CacheManager_has (c1\<lparr>cache := AList.delete k (cache c1)\<rparr>) after k) = False"
    using gone by (simp add: CacheManager_has_def CacheManager_get_def)
  show ?thesis
    using fresh stale gone miss by simp
qed

theorem C6_set_get_then_expiry_witness:
  "CacheManager_get (CacheManager_set (new_CacheManager :: (string, nat) CacheManager) 1000
       ''/api/images?page=1'' (JsVal 7) None) 1000 ''/api/images?page=1''
     = (JsVal 7, CacheManager_set new_CacheManager 1000 ''/api/images?page=1'' (JsVal 7) None)
   \<and> fst (CacheManager_get (CacheManager_set (new_CacheManager :: (string, nat) CacheManager) 1000
       ''/api/images?page=1'' (JsVal 7) None) 301001 ''/api/images?page=1'') = JsNull
   \<and> fst (CacheManager_has (snd (CacheManager_get
       (CacheManager_set (new_CacheManager :: (string, nat) CacheManager) 1000
          ''/api/images?page=1'' (JsVal 7) None) 301001 ''/api/images?page=1''))
       301002 ''/api/images?page=1'') = False"
  using C6_set_get_then_expiry [where c = "new_CacheManager :: (string, nat) CacheManager"
          and now = 1000 and later = 1000 and k = "''/api/images?page=1''" and v = "JsVal 7"
          and m = None and after = 0]
        C6_set_get_then_expiry [where c = "new_CacheManager :: (string, nat) CacheManager"
          and now = 1000 and later = 301001 and k = "''/api/images?page=1''" and v = "JsVal 7"
          and m = None and after = 301002]
  by (auto simp add: new_CacheManager_def)

lemma maxSize_set [simp]: "maxSize (CacheManager_set c now k v m) = maxSize c"
  by (simp add: CacheManager_set_def Let_def)

lemma maxAge_set [simp]: "maxAge (CacheManager_set c now k v m) = maxAge c"
  by (simp add: CacheManager_set_def Let_def)

lemma maxSize_set_all [simp]: "maxSize (set_all c ops) = maxSize c"
  by (induction c ops rule: set_all.induct) simp_all

lemma distinct_evict: "distinct (map fst (cache c)) \<Longrightarrow> distinct (map fst (cache (evict_if_full c)))"
  by (auto simp add: evict_if_full_def distinct_delete split: list.splits)

lemma distinct_set: "distinct (map fst (cache c)) \<Longrightarrow> distinct (map fst (cache (CacheManager_set c now k v m)))"
  using distinct_evict [of c] by (simp add: CacheManager_set_def Let_def distinct_update)

lemma distinct_get: "distinct (map fst (cache c)) \<Longrightarrow> distinct (map fst (cache (snd (CacheManager_get c now k))))"
  by (simp add: CacheManager_get_def distinct_delete split: option.splits)

lemma evict_full:
  assumes "length (cache c) \<ge> maxSize c" and "cache c = (k0, e0) # rest"
    and "distinct (map fst (cache c))"
  shows "evict_if_full c = c\<lparr>cache := rest\<rparr>"
  using assms by (simp add: evict_if_full_def image_iff)

lemma full_cache_entries:
  "cache full_cache =
     (0, \<lparr>item_value = JsVal 0, timestamp = 3, item_maxAge = 300000\<rparr>)
   # (1, \<lparr>item_value = JsVal 1, timestamp = 2, item_maxAge = 300000\<rparr>)
   # map (\<lambda>i. (i, \<lparr>item_value = JsVal i, timestamp = int i + 2, item_maxAge = 300000\<rparr>)) [2..<100]"
  by code_simp

text \<open>
  C7 (as amended). When the cache holds at least \<open>maxSize\<close> entries and is not empty,
  \<^verbatim>\<open>set\<close> removes exactly one entry before it stores: the entry of the first key of the
  map's iteration order, which is the key that has been in the map longest. The other
  entries stay as they are and in their order; the new key goes to the end unless it is
  still present, in which case its entry is replaced in place.
\<close>

theorem C7_set_evicts_first_key:
  fixes c :: "('k, 'v) CacheManager"
  assumes "length (cache c) \<ge> maxSize c" and "cache c = (k0, e0) # rest"
    and "distinct (map fst (cache c))"
  shows "evict_if_full c = c\<lparr>cache := rest\<rparr>
       \<and> cache (CacheManager_set c now k v m) =
           AList.update k \<lparr>item_value = v, timestamp = now,
              item_maxAge = (case m of None \<Rightarrow> maxAge c | Some x \<Rightarrow> x)\<rparr> rest
       \<and> map fst (cache (CacheManager_set c now k v m)) =
           (if k \<in> set (map fst rest) then map fst rest else map fst rest @ [k])
       \<and> (k0 \<noteq> k \<longrightarrow> map_of (cache (CacheManager_set c now k v m)) k0 = None)
       \<and> (\<forall>k'. k' \<noteq> k \<and> k' \<noteq> k0 \<longrightarrow>
            map_of (cache (CacheManager_set c now k v m)) k' = map_of (cache c) k')"
proof -
  have ev: "evict_if_full c = c\<lparr>cache := rest\<rparr>"
    using assms by (rule evict_full)
  have st: "cache (CacheManager_set c now k v m) =
           AList.update k \<lparr>item_value = v, timestamp = now,
              item_maxAge = (case m of None \<Rightarrow> maxAge c | Some x \<Rightarrow> x)\<rparr> rest"
    by (simp add: CacheManager_set_def Let_def ev)
  have keys: "map fst (cache (CacheManager_set c now k v m)) =
           (if k \<in> set (map fst rest) then map fst rest else map fst rest @ [k])"
    unfolding st by (simp add: update_keys)
  have k0: "k0 \<notin> fst ` set rest"
    using assms(2,3) by (simp add: image_iff)
  have gone: "k0 \<noteq> k \<longrightarrow> map_of (cache (CacheManager_set c now k v m)) k0 = None"
    unfolding st using k0 by (simp add: update_conv' map_of_eq_None_iff)
  have kept: "\<forall>k'. k' \<noteq> k \<and> k' \<noteq> k0 \<longrightarrow>
            map_of (cache (CacheManager_set c now k v m)) k' = map_of (cache c) k'"
    unfolding st using assms(2) by (simp add: update_conv')
  show ?thesis
    using ev st keys gone kept by blast
qed

theorem C7_set_evicts_first_key_witness:
  "cache (CacheManager_set
      \<lparr>cache = [(''a'', \<lparr>item_value = JsVal (1::nat), timestamp = 3, item_maxAge = 300000\<rparr>),
                (''b'', \<lparr>item_value = JsVal 2, timestamp = 2, item_maxAge = 300000\<rparr>)],
       maxAge = 300000, maxSize = 2\<rparr> 4 ''c'' (JsVal 3) None)
   = [(''b'', \<lparr>item_value = JsVal 2, timestamp = 2, item_maxAge = 300000\<rparr>),
      (''c'', \<lparr>item_value = JsVal 3, timestamp = 4, item_maxAge = 300000\<rparr>)]"
  using C7_set_evicts_first_key [where c = "\<lparr>cache =
               [(''a'', \<lparr>item_value = JsVal (1::nat), timestamp = 3, item_maxAge = 300000\<rparr>),
                (''b'', \<lparr>item_value = JsVal 2, timestamp = 2, item_maxAge = 300000\<rparr>)],
             maxAge = 300000, maxSize = 2\<rparr>"
      and ?k0.0 = "''a''" and ?e0.0 = "\<lparr>item_value = JsVal 1, timestamp = 3, item_maxAge = 300000\<rparr>"
      and rest = "[(''b'', \<lparr>item_value = JsVal 2, timestamp = 2, item_maxAge = 300000\<rparr>)]"
      and now = 4 and k = "''c''" and v = "JsVal 3" and m = None]
  by simp

text \<open>
  C7 as stated fails on the entries' own insertion times. In the cache \<open>full_cache\<close>,
  which holds exactly \<open>maxSize\<close> entries, the first key's entry was stored at time 3 and
  the second key's at time 2; the next \<^verbatim>\<open>set\<close> evicts the first key's entry, the newer
  of the two, and keeps the older.
\<close>

theorem C7_counterexample:
  "length (cache full_cache) = maxSize full_cache
   \<and> map (\<lambda>(k, e). (k, timestamp e)) (take 2 (cache full_cache)) = [(0, 3), (1, 2)]
   \<and> map_of (cache (CacheManager_set full_cache 200 100 (JsVal 100) None)) 0 = None
   \<and> map_option timestamp (map_of (cache (CacheManager_set full_cache 200 100 (JsVal 100) None)) 1) = Some 2"
proof -
  have sz: "maxSize full_cache = 100"
    by (simp add: full_cache_def new_CacheManager_def)
  have len: "length (cache full_cache) = 100"
    by (simp add: full_cache_entries)
  have ev: "cache (evict_if_full full_cache) = tl (cache full_cache)"
    by (simp add: evict_if_full_def sz len) (auto simp add: full_cache_entries)
  show ?thesis
    by (simp add: sz len CacheManager_set_def Let_def ev update_conv') (simp add: full_cache_entries)
qed

text \<open>
  C9 (as amended). \<^verbatim>\<open>has(key)\<close> is true exactly when the key has an entry that is not
  expired and whose value is not \<^verbatim>\<open>null\<close>: it answers as \<^verbatim>\<open>get\<close> does and leaves the
  cache as \<^verbatim>\<open>get\<close> does. The cache is unchanged unless the key's entry is expired; then
  that entry is deleted.
\<close>

theorem C9_has_is_get_not_null:
  "CacheManager_has c now k =
     (case map_of (cache c) k of
        None \<Rightarrow> (False, c)
      | Some item \<Rightarrow>
          if expired item now then (False, c\<lparr>cache := AList.delete k (cache c)\<rparr>)
          else (item_value item \<noteq> JsNull, c))
   \<and> fst (CacheManager_has c now k) = (fst (CacheManager_get c now k) \<noteq> JsNull)
   \<and> snd (CacheManager_has c now k) = snd (CacheManager_get c now k)"
  by (simp add: CacheManager_has_def CacheManager_get_def expired_def split: option.splits)

theorem C9_has_is_get_not_null_witness:
  "CacheManager_has (CacheManager_set (new_CacheManager :: (string, nat) CacheManager) 1000
       ''k'' (JsVal 7) None) 2000 ''k''
     = (True, CacheManager_set new_CacheManager 1000 ''k'' (JsVal 7) None)"
  using C9_has_is_get_not_null [where c = "CacheManager_set
       (new_CacheManager :: (string, nat) CacheManager) 1000 ''k'' (JsVal 7) None"
       and now = 2000 and k = "''k''"]
  by (simp add: CacheManager_set_def Let_def new_CacheManager_def evict_if_full_def expired_def)

text \<open>
  C9 as stated fails: \<^verbatim>\<open>has\<close> is not free of effects. On a cache whose only entry is
  expired, \<^verbatim>\<open>has\<close> of its key answers false and leaves the cache empty.
\<close>

theorem C9_counterexample:
  "cache (CacheManager_set (new_CacheManager :: (string, nat) CacheManager) 1000 ''k'' (JsVal 7) None)
     = [(''k'', \<lparr>item_value = JsVal 7, timestamp = 1000, item_maxAge = 300000\<rparr>)]
   \<and> CacheManager_has (CacheManager_set (new_CacheManager :: (string, nat) CacheManager) 1000 ''k'' (JsVal 7) None) 301001 ''k''
     = (False, new_CacheManager)"
  by (simp add: CacheManager_has_def CacheManager_get_def CacheManager_set_def Let_def
        new_CacheManager_def evict_if_full_def)


section \<open>Properties of the HTTP client\<close>

lemmas http_defs = request_def try_block_def fetch_call_def log_event_def clearTimeout_def
  timer_delay_def
  Let_def no_retry_def backoff_def delay_def ok_def HttpError_def AbortError_def startsWith_def
  new_HttpClient_def no_config_def no_options_def fresh_io_def json_response_def spread_def
  post_def post_config_def parseResponse_def

lemmas api_defs = new_ApiService_def addResponseInterceptor_def addRequestInterceptor_def
  auth_interceptor_def unauthorized_interceptor_def handleUnauthorized_def getAuthToken_def
  removeAuthToken_def

lemma run_response_interceptors_pass:
  assumes "\<forall>f\<in>set fs. \<forall>w. fst (f r w) = None"
  shows "run_response_interceptors fs i r s =
     (None, s\<lparr>world := fold (\<lambda>f w. snd (f r w)) fs (world s),
               trace := trace s @ map (\<lambda>j. EvResponseInterceptor j (status r)) [i..<i + length fs]\<rparr>)"
  using assms
proof (induction fs arbitrary: i s)
  case Nil
  then show ?case by simp
next
  case (Cons f fs)
  define w' where "w' = snd (f r (world s))"
  have "fst (f r (world s)) = None"
    using Cons.prems by simp
  then have fw: "f r (world s) = (None, w')"
    by (simp add: w'_def prod_eq_iff)
  have rest: "\<forall>g\<in>set fs. \<forall>w. fst (g r w) = None"
    using Cons.prems by simp
  let ?s1 = "s\<lparr>trace := trace s @ [EvResponseInterceptor i (status r)], world := w'\<rparr>"
  have step: "run_response_interceptors (f # fs) i r s = run_response_interceptors fs (Suc i) r ?s1"
    using fw by (simp add: Let_def log_event_def)
  have upt: "[i..<i + length (f # fs)] = i # [Suc i..<Suc i + length fs]"
    by (simp add: upt_conv_Cons del: upt_Suc)
  show ?case
    unfolding step Cons.IH [OF rest] upt by (simp add: w'_def)
qed

lemma fetch_call_in_time:
  assumes "\<not> aborted s" and "net n = (d, outcome)"
    and "case deadline s of None \<Rightarrow> True | Some dl \<Rightarrow> clock s + int d \<le> dl"
  shows "fetch_call net n url cfg s =
     (outcome, s\<lparr>clock := clock s + int d, trace := trace s @ [EvFetch url cfg]\<rparr>)"
  using assms by (simp add: fetch_call_def Let_def log_event_def split: option.splits)

lemma fetch_call_timed_out:
  assumes "aborted s \<or> (\<exists>dl. deadline s = Some dl \<and> clock s + int (fst (net n)) > dl)"
  shows "fst (fetch_call net n url cfg s) = Rejected AbortError"
    and "trace (snd (fetch_call net n url cfg s)) = trace s @ [EvFetch url cfg]"
    and "world (snd (fetch_call net n url cfg s)) = world s"
  using assms by (auto simp add: fetch_call_def Let_def log_event_def split: option.splits prod.splits)

lemma try_block_resolved:
  assumes "\<not> aborted s"
    and "case deadline s of None \<Rightarrow> True | Some dl \<Rightarrow> clock s + int d \<le> dl"
    and "net n = (d, Resolved r)"
    and "\<forall>f\<in>set (response_interceptors cl). \<forall>w. fst (f r w) = None"
  shows "try_block cl net url cfg n s =
               (if ok r then Inr r else Inl (HttpError (status r) (statusText r)),
                s\<lparr>world := fold (\<lambda>f w. snd (f r w)) (response_interceptors cl) (world s),
                  clock := clock s + int d,
                  deadline := None,
                  trace := trace s @ EvFetch url cfg
                    # map (\<lambda>j. EvResponseInterceptor j (status r))
                        [0..<length (response_interceptors cl)]\<rparr>)"
proof -
  have f: "fetch_call net n url cfg s =
     (Resolved r, s\<lparr>clock := clock s + int d, trace := trace s @ [EvFetch url cfg]\<rparr>)"
    using assms(1,2,3) by (simp add: fetch_call_in_time)
  show ?thesis
    using assms(4) by (simp add: try_block_def f run_response_interceptors_pass clearTimeout_def)
qed

lemma try_block_rejected:
  assumes "\<not> aborted s"
    and "case deadline s of None \<Rightarrow> True | Some dl \<Rightarrow> clock s + int d \<le> dl"
    and "net n = (d, Rejected e)"
  shows "try_block cl net url cfg n s =
               (Inl e, s\<lparr>clock := clock s + int d, trace := trace s @ [EvFetch url cfg]\<rparr>)"
proof -
  have f: "fetch_call net n url cfg s =
     (Rejected e, s\<lparr>clock := clock s + int d, trace := trace s @ [EvFetch url cfg]\<rparr>)"
    using assms by (simp add: fetch_call_in_time)
  show ?thesis
    by (simp add: try_block_def f)
qed

text \<open>However a \<^verbatim>\<open>fetch\<close> comes to reject, by the network or by an abort, no interceptor runs.\<close>

lemma try_block_any_rejection:
  "fst (fetch_call net n url cfg s) = Rejected e \<Longrightarrow>
   try_block cl net url cfg n s = (Inl e, snd (fetch_call net n url cfg s))"
  by (cases "fetch_call net n url cfg s") (simp add: try_block_def)

text \<open>
  C2 (as amended). On every attempt whose \<^verbatim>\<open>fetch\<close> resolves with a response, whatever
  its HTTP status, the response interceptors run on that response in registration order
  (none of them throwing), after the timer is cleared and before the status is tested:
  only then is the response returned, or the \<^verbatim>\<open>HttpError\<close> raised when the status is not
  a success. On an attempt whose \<^verbatim>\<open>fetch\<close> rejects no interceptor runs.
\<close>

theorem C2_response_interceptors_run_on_every_response:
  assumes "\<not> aborted s"
    and "case deadline s of None \<Rightarrow> True | Some dl \<Rightarrow> clock s + int d \<le> dl"
  shows "(net n = (d, Resolved r) \<and> (\<forall>f\<in>set (response_interceptors cl). \<forall>w. fst (f r w) = None)
          \<longrightarrow> try_block cl net url cfg n s =
               (if ok r then Inr r else Inl (HttpError (status r) (statusText r)),
                s\<lparr>world := fold (\<lambda>f w. snd (f r w)) (response_interceptors cl) (world s),
                  clock := clock s + int d,
                  deadline := None,
                  trace := trace s @ EvFetch url cfg
                    # map (\<lambda>j. EvResponseInterceptor j (status r))
                        [0..<length (response_interceptors cl)]\<rparr>))
       \<and> (net n = (d, Rejected e)
          \<longrightarrow> try_block cl net url cfg n s =
               (Inl e, s\<lparr>clock := clock s + int d, trace := trace s @ [EvFetch url cfg]\<rparr>))"
  using try_block_resolved [OF assms] try_block_rejected [OF assms] by blast

theorem C2_response_interceptors_run_on_every_response_witness:
  "try_block (client new_ApiService) (\<lambda>n. (10, Resolved (json_response 401 ''Unauthorized'')))
      ''http://localhost:5001/api/user'' \<lparr>req_method = ''GET'', headers = [], body = None\<rparr> 0
      ((fresh_io [(''carousel-auth-token'', ''abc'')])\<lparr>deadline := Some 30000\<rparr>)
   = (Inl (HttpError 401 ''Unauthorized''),
      \<lparr>world = [], clock = 10, deadline = None, aborted = False,
       trace = [EvFetch ''http://localhost:5001/api/user''
                  \<lparr>req_method = ''GET'', headers = [], body = None\<rparr>,
                EvResponseInterceptor 0 401]\<rparr>)"
  using C2_response_interceptors_run_on_every_response
    [where s = "(fresh_io [(''carousel-auth-token'', ''abc'')])\<lparr>deadline := Some 30000\<rparr>"
       and d = 10 and n = 0 and r = "json_response 401 ''Unauthorized''"
       and net = "\<lambda>n. (10, Resolved (json_response 401 ''Unauthorized''))"
       and cl = "client new_ApiService" and url = "''http://localhost:5001/api/user''"
       and cfg = "\<lparr>req_method = ''GET'', headers = [], body = None\<rparr>"]
  by (simp add: fresh_io_def json_response_def new_ApiService_def addResponseInterceptor_def
        addRequestInterceptor_def new_HttpClient_def unauthorized_interceptor_def ok_def
        handleUnauthorized_def removeAuthToken_def)

text \<open>
  C2 as stated fails: the interceptors do run on a response that is not a success. With
  the service's own interceptors and a stored token, a 401 answer makes the request fail
  with an \<^verbatim>\<open>HttpError\<close>, and the response interceptor has run and removed the token.
\<close>

theorem C2_counterexample:
  "\<not> ok (json_response 401 ''Unauthorized'')
   \<and> request (client new_ApiService) (\<lambda>n. (10, Resolved (json_response 401 ''Unauthorized'')))
        ''/api/user'' no_options (fresh_io [(''carousel-auth-token'', ''abc'')])
     = (Inl (Thrown (HttpError 401 ''Unauthorized'')),
        \<lparr>world = [], clock = 10, deadline = None, aborted = False,
         trace = [EvRequestInterceptor 0,
                  EvFetch ''http://localhost:5001/api/user''
                    \<lparr>req_method = ''GET'',
                     headers = [(''Content-Type'', ''application/json''),
                                (''Authorization'', ''Bearer abc'')],
                     body = None\<rparr>,
                  EvResponseInterceptor 0 401]\<rparr>)"
  by (simp add: http_defs api_defs retry_loop.simps)

lemma delays_of_append [simp]: "delays_of (xs @ ys) = delays_of xs @ delays_of ys"
  by (induction xs rule: delays_of.induct) simp_all

lemma fetches_of_append [simp]: "fetches_of (xs @ ys) = fetches_of xs @ fetches_of ys"
  by (induction xs rule: fetches_of.induct) simp_all

lemma run_request_interceptors_pass:
  assumes "\<forall>f\<in>set fs. \<forall>c w. fst (f c w) = None"
  shows "\<exists>config' s'. run_request_interceptors fs i config s = (None, config', s')
           \<and> clock s' = clock s \<and> delays_of (trace s') = delays_of (trace s)
           \<and> fetches_of (trace s') = fetches_of (trace s)"
  using assms
proof (induction fs arbitrary: i config s)
  case Nil
  then show ?case by simp
next
  case (Cons f fs)
  have "fst (f config (world s)) = None"
    using Cons.prems by simp
  then obtain c1 w1 where fw: "f config (world s) = (None, c1, w1)"
    by (cases "f config (world s)") auto
  have rest: "\<forall>g\<in>set fs. \<forall>c w. fst (g c w) = None"
    using Cons.prems by simp
  let ?s1 = "s\<lparr>trace := trace s @ [EvRequestInterceptor i], world := w1\<rparr>"
  have step: "run_request_interceptors (f # fs) i config s =
                run_request_interceptors fs (Suc i) c1 ?s1"
    using fw by (simp add: Let_def log_event_def)
  from Cons.IH [OF rest, of "Suc i" c1 ?s1] show ?case
    unfolding step by auto
qed

lemma retry_loop_ends_on_abort:
  assumes "int attempt \<le> retryAttempts cl"
    and "aborted s \<or> (\<exists>dl. deadline s = Some dl \<and> clock s + int (fst (net attempt)) > dl)"
  shows "fst (retry_loop cl net url cfg attempt lastError s) = Inl (Thrown AbortError)
       \<and> trace (snd (retry_loop cl net url cfg attempt lastError s)) = trace s @ [EvFetch url cfg]
       \<and> world (snd (retry_loop cl net url cfg attempt lastError s)) = world s"
proof -
  obtain s1 where f: "fetch_call net attempt url cfg s = (Rejected AbortError, s1)"
    and t: "trace s1 = trace s @ [EvFetch url cfg]" and w: "world s1 = world s"
    using assms(2) fetch_call_timed_out [of s net attempt url cfg]
    by (cases "fetch_call net attempt url cfg s") auto
  have tb: "try_block cl net url cfg attempt s = (Inl AbortError, s1)"
    by (simp add: try_block_def f)
  have nr: "no_retry AbortError"
    by (simp add: no_retry_def AbortError_def)
  have "retry_loop cl net url cfg attempt lastError s = (Inl (Thrown AbortError), clearTimeout s1)"
    using assms(1) by (subst retry_loop.simps) (simp add: tb nr)
  then show ?thesis
    by (simp add: t w clearTimeout_def)
qed

lemma request_ends_on_late_first_answer:
  assumes budget: "0 \<le> retryAttempts cl"
    and reqi: "\<forall>f\<in>set (request_interceptors cl). \<forall>c w. fst (f c w) = None"
    and late: "int (fst (net 0)) > timeout cl"
  shows "fst (request cl net url options s) = Inl (Thrown AbortError)
       \<and> length (fetches_of (trace (snd (request cl net url options s))))
           = Suc (length (fetches_of (trace s)))
       \<and> delays_of (trace (snd (request cl net url options s))) = delays_of (trace s)"
proof -
  let ?config = "\<lparr>req_method = (case opt_method options of None \<Rightarrow> ''GET'' | Some m \<Rightarrow> m),
                  headers = (case opt_headers options of
                               None \<Rightarrow> defaultHeaders cl | Some h \<Rightarrow> h),
                  body = opt_body options\<rparr>"
  obtain config' s1 where
    ri: "run_request_interceptors (request_interceptors cl) 0 ?config s = (None, config', s1)"
    and t1: "delays_of (trace s1) = delays_of (trace s)"
    and f1: "fetches_of (trace s1) = fetches_of (trace s)"
    using run_request_interceptors_pass [OF reqi, of 0 ?config s] by blast
  let ?url = "if startsWith url ''http'' then url else baseURL cl @ url"
  let ?s2 = "s1\<lparr>deadline := Some (clock s1 + timer_delay (timeout cl)), aborted := False\<rparr>"
  have req: "request cl net url options s = retry_loop cl net ?url config' 0 ThrownUndefined ?s2"
    by (simp add: request_def Let_def ri)
  have "int 0 \<le> retryAttempts cl"
    using budget by simp
  moreover have "aborted ?s2 \<or> (\<exists>dl. deadline ?s2 = Some dl \<and> clock ?s2 + int (fst (net 0)) > dl)"
    using late by (simp add: timer_delay_def)
  ultimately have
    "fst (retry_loop cl net ?url config' 0 ThrownUndefined ?s2) = Inl (Thrown AbortError)
     \<and> trace (snd (retry_loop cl net ?url config' 0 ThrownUndefined ?s2))
         = trace ?s2 @ [EvFetch ?url config']
     \<and> world (snd (retry_loop cl net ?url config' 0 ThrownUndefined ?s2)) = world ?s2"
    by (rule retry_loop_ends_on_abort)
  then show ?thesis
    unfolding req by (simp add: t1 f1)
qed

text \<open>
  C1 (as amended). When the timeout expires, the \<^verbatim>\<open>fetch\<close> of the current attempt
  rejects with an \<^verbatim>\<open>AbortError\<close> (the timer fires while the call is in flight, or it has
  fired during a wait and the signal is aborted already). That error is not retried: the
  loop ends at this attempt, with no further \<^verbatim>\<open>fetch\<close> and no wait, and the
  \<^verbatim>\<open>AbortError\<close> is thrown to the caller, whatever is left of the retry budget. In
  particular a request whose first answer would come after the timeout makes one
  \<^verbatim>\<open>fetch\<close>, waits for no retry and throws the \<^verbatim>\<open>AbortError\<close>.
\<close>

theorem C1_timeout_ends_the_retry_loop:
  "(int attempt \<le> retryAttempts cl
      \<and> (aborted s \<or> (\<exists>dl. deadline s = Some dl \<and> clock s + int (fst (net attempt)) > dl))
    \<longrightarrow> fst (retry_loop cl net url cfg attempt lastError s) = Inl (Thrown AbortError)
       \<and> trace (snd (retry_loop cl net url cfg attempt lastError s)) = trace s @ [EvFetch url cfg]
       \<and> world (snd (retry_loop cl net url cfg attempt lastError s)) = world s)
   \<and> (0 \<le> retryAttempts cl
      \<and> (\<forall>f\<in>set (request_interceptors cl). \<forall>c w. fst (f c w) = None)
      \<and> int (fst (net 0)) > timeout cl
    \<longrightarrow> fst (request cl net url' options s') = Inl (Thrown AbortError)
       \<and> length (fetches_of (trace (snd (request cl net url' options s'))))
           = Suc (length (fetches_of (trace s')))
       \<and> delays_of (trace (snd (request cl net url' options s'))) = delays_of (trace s'))"
  using retry_loop_ends_on_abort [of attempt cl s net url cfg lastError]
        request_ends_on_late_first_answer [of cl net url' options s']
  by blast

theorem C1_timeout_ends_the_retry_loop_witness:
  "fst (request (client new_ApiService) (\<lambda>n. (40000, Resolved (json_response 200 ''OK'')))
          ''/api/images'' no_options (fresh_io [(''carousel-auth-token'', ''abc'')]))
     = Inl (Thrown AbortError)
   \<and> length (fetches_of (trace (snd (request (client new_ApiService)
          (\<lambda>n. (40000, Resolved (json_response 200 ''OK'')))
          ''/api/images'' no_options (fresh_io [(''carousel-auth-token'', ''abc'')]))))) = 1
   \<and> delays_of (trace (snd (request (client new_ApiService)
          (\<lambda>n. (40000, Resolved (json_response 200 ''OK'')))
          ''/api/images'' no_options (fresh_io [(''carousel-auth-token'', ''abc'')])))) = []"
proof -
  have cl: "retryAttempts (client new_ApiService) = 3"
    "timeout (client new_ApiService) = 30000"
    "request_interceptors (client new_ApiService) = [auth_interceptor]"
    by (simp_all add: new_ApiService_def addResponseInterceptor_def addRequestInterceptor_def
          new_HttpClient_def no_config_def)
  have p: "\<forall>f\<in>set (request_interceptors (client new_ApiService)). \<forall>c w. fst (f c w) = None"
    by (simp add: cl auth_interceptor_def split: option.splits)
  from C1_timeout_ends_the_retry_loop [where cl = "client new_ApiService"
      and net = "\<lambda>n. (40000, Resolved (json_response 200 ''OK''))"
      and url' = "''/api/images''" and options = no_options
      and s' = "fresh_io [(''carousel-auth-token'', ''abc'')]"] p
  show ?thesis
    by (simp add: cl fresh_io_def)
qed

text \<open>
  C1 as stated fails: with the default client (three retries, thirty seconds) an answer
  that would take forty seconds ends the request with the \<^verbatim>\<open>AbortError\<close> after one
  \<^verbatim>\<open>fetch\<close>, at the thirtieth second, with the whole retry budget unused.
\<close>

theorem C1_counterexample:
  "retryAttempts (new_HttpClient no_config :: unit HttpClient) = 3
   \<and> timeout (new_HttpClient no_config :: unit HttpClient) = 30000
   \<and> request (new_HttpClient no_config) (\<lambda>n. (40000, Resolved (json_response 200 ''OK'')))
        ''/api/images'' no_options (fresh_io ())
     = (Inl (Thrown AbortError),
        \<lparr>world = (), clock = 30000, deadline = None, aborted = True,
         trace = [EvFetch ''http://localhost:5001/api/images''
                    \<lparr>req_method = ''GET'', headers = [(''Content-Type'', ''application/json'')],
                     body = None\<rparr>]\<rparr>)"
  by (simp add: http_defs retry_loop.simps)

lemma delays_of_interceptors [simp]:
  "delays_of (map (\<lambda>j. EvResponseInterceptor j st) js) = []"
  by (induction js) simp_all



text \<open>
  Beyond the range of the platform's timers a wait is no wait and a timeout is none: with
  a timeout of 2147483648 ms the first \<^verbatim>\<open>fetch\<close> is aborted although the answer is 50 ms
  away, and with a \<^verbatim>\<open>retryDelay\<close> of 2147483648 ms two failed attempts and a success take
  the 150 ms of the three answers.
\<close>

lemma timers_beyond_their_range:
  "fst (request ((new_HttpClient (no_config\<lparr>cfg_timeout := Some 2147483648\<rparr>)) :: unit HttpClient)
          (\<lambda>n. if n < 2 then (50, Resolved (json_response 503 ''Service Unavailable''))
                else (50, Resolved (json_response 200 ''OK'')))
          ''/api/images'' no_options (fresh_io ()))
     = Inl (Thrown AbortError)
   \<and> clock (snd (request
          ((new_HttpClient (no_config\<lparr>cfg_retryDelay := Some 2147483648\<rparr>)) :: unit HttpClient)
          (\<lambda>n. if n < 2 then (50, Resolved (json_response 503 ''Service Unavailable''))
                else (50, Resolved (json_response 200 ''OK'')))
          ''/api/images'' no_options (fresh_io ())))
     = 150"
  by (simp add: http_defs retry_loop.simps)


section \<open>Properties of the API service\<close>




text \<open>
  C3 (the code at the failing input). \<^verbatim>\<open>post\<close> with a \<^verbatim>\<open>FormData\<close> and no options on
  the default client: the config built by \<^verbatim>\<open>post\<close> has no headers, so the delete has
  nothing to delete, \<^verbatim>\<open>request\<close> fills in the default headers, and the request that is
  sent carries \<^verbatim>\<open>Content-Type: application/json\<close>.
\<close>

theorem C3_formdata_post_keeps_json_content_type:
  "post_config (Some (FormData [(''image'', ''cat.png'')])) no_options
     = \<lparr>opt_method = Some ''POST'', opt_headers = None,
        opt_body = Some (FormDataBody [(''image'', ''cat.png'')])\<rparr>
   \<and> fetches_of (trace (snd (post (new_HttpClient no_config)
          (\<lambda>n. (10, Resolved (json_response 200 ''OK''))) ''/api/upload''
          (Some (FormData [(''image'', ''cat.png'')])) no_options (fresh_io ()))))
     = [(''http://localhost:5001/api/upload'',
         \<lparr>req_method = ''POST'', headers = [(''Content-Type'', ''application/json'')],
          body = Some (FormDataBody [(''image'', ''cat.png'')])\<rparr>)]"
  by (simp add: http_defs retry_loop.simps)

text \<open>
  When the caller passes headers of its own, the \<^verbatim>\<open>Content-Type\<close> is removed from them.
\<close>

lemma post_config_formdata_with_headers:
  "opt_headers options = Some h \<Longrightarrow>
   opt_headers (post_config (Some (FormData fd)) options) = Some (AList.delete ''Content-Type'' h)
   \<and> map_of (the (opt_headers (post_config (Some (FormData fd)) options))) ''Content-Type'' = None"
  by (simp add: post_config_def delete_conv')

text \<open>
  C10. Whatever the token store holds and whatever the network does, \<^verbatim>\<open>logout\<close> resolves
  (it throws nothing), and afterwards the store holds no auth token.
\<close>

theorem C10_logout_always_removes_token:
  "fst (logout api net s) = Inr ()
   \<and> getAuthToken (world (snd (logout api net s))) = None"
  by (simp add: logout_def getAuthToken_def removeAuthToken_def delete_conv'
        split: prod.splits sum.splits)

theorem C10_logout_always_removes_token_witness:
  "getAuthToken (world (fresh_io [(''carousel-theme'', ''dark''), (''carousel-auth-token'', ''abc'')]))
     = Some ''abc''
   \<and> fst (post (client new_ApiService) (\<lambda>n. (10, Rejected (JsError ''Failed to fetch'')))
          ''/api/auth/logout'' None no_options
          (fresh_io [(''carousel-theme'', ''dark''), (''carousel-auth-token'', ''abc'')]))
     = Inl (Thrown (JsError ''Failed to fetch''))
   \<and> fst (logout new_ApiService (\<lambda>n. (10, Rejected (JsError ''Failed to fetch'')))
          (fresh_io [(''carousel-theme'', ''dark''), (''carousel-auth-token'', ''abc'')]))
     = Inr ()
   \<and> getAuthToken (world (snd (logout new_ApiService
          (\<lambda>n. (10, Rejected (JsError ''Failed to fetch'')))
          (fresh_io [(''carousel-theme'', ''dark''), (''carousel-auth-token'', ''abc'')]))))
     = None"
proof -
  let ?net = "\<lambda>n::nat. (10::nat, Rejected (JsError ''Failed to fetch''))"
  let ?s = "fresh_io [(''carousel-theme'', ''dark''), (''carousel-auth-token'', ''abc'')]"
  have t: "getAuthToken (world ?s) = Some ''abc''"
    by (simp add: fresh_io_def getAuthToken_def)
  have p: "fst (post (client new_ApiService) ?net ''/api/auth/logout'' None no_options ?s)
      = Inl (Thrown (JsError ''Failed to fetch''))"
    by (simp add: http_defs api_defs retry_loop.simps JsError_def)
  from C10_logout_always_removes_token [of new_ApiService ?net ?s] t p show ?thesis
    by blast
qed

section \<open>Properties of the gallery and of the upload queue\<close>

text \<open>
  What \<^verbatim>\<open>deleteImage\<close> does to the two lists: after a confirmation and a success status
  every record with the image's id is gone from both, the others keep their order; when
  the user declines, or the request is rejected or answered with another status, both
  lists stay as they are. A request is sent exactly when the user confirms, and it is
  always a \<^verbatim>\<open>DELETE\<close> of \<^verbatim>\<open>API_BASE_URL/api/pins/{id}\<close>.
\<close>

lemma deleteImage_lists:
  "(confirmed \<and> outcome = Resolved r \<and> ok r \<longrightarrow>
      images (fst (GalleryManager_deleteImage confirmed outcome gm img0))
        = filter (\<lambda>x. img_id x \<noteq> img_id img0) (images gm)
    \<and> filteredImages (fst (GalleryManager_deleteImage confirmed outcome gm img0))
        = filter (\<lambda>x. img_id x \<noteq> img_id img0) (filteredImages gm)
    \<and> img0 \<notin> set (images (fst (GalleryManager_deleteImage confirmed outcome gm img0)))
    \<and> img0 \<notin> set (filteredImages (fst (GalleryManager_deleteImage confirmed outcome gm img0))))
   \<and> (\<not> confirmed \<or> outcome = Rejected e \<or> (outcome = Resolved r \<and> \<not> ok r) \<longrightarrow>
        fst (GalleryManager_deleteImage confirmed outcome gm img0) = gm)
   \<and> (\<not> confirmed \<longrightarrow> snd (GalleryManager_deleteImage confirmed outcome gm img0) = [])"
  by (cases outcome) (auto simp add: GalleryManager_deleteImage_def Let_def)

lemma deleteImage_request:
  "confirmed \<Longrightarrow>
   \<exists>rest. snd (GalleryManager_deleteImage confirmed outcome gm img0)
            = GalleryFetch ''DELETE'' (''http://localhost:5001/api/pins/'' @ img_id img0) # rest"
  by (cases outcome) (auto simp add: GalleryManager_deleteImage_def Let_def API_BASE_URL_def)

lemma deleteImage_failed_request_keeps_lists:
  "GalleryManager_deleteImage True (Resolved (json_response 500 ''Internal Server Error''))
      \<lparr>images = [demo_image], filteredImages = [demo_image]\<rparr> demo_image
   = (\<lparr>images = [demo_image], filteredImages = [demo_image]\<rparr>,
      [GalleryFetch ''DELETE'' ''http://localhost:5001/api/pins/1'',
       GalleryToastError ''Failed to delete image''])"
  by (simp add: GalleryManager_deleteImage_def Let_def ok_def json_response_def API_BASE_URL_def
        demo_image_def)

text \<open>
  C4 (the code at the failing input). The user confirms the deletion of the image with
  id 1 and the backend answers with a success status. The gallery removes the record from
  both lists, but the request it has sent is a \<^verbatim>\<open>DELETE\<close> of \<^verbatim>\<open>/api/pins/1\<close>, made with
  \<^verbatim>\<open>fetch\<close> itself; the API service's \<^verbatim>\<open>deleteImage\<close>, which the gallery does not call,
  sends the \<^verbatim>\<open>DELETE\<close> of \<^verbatim>\<open>/api/images/1\<close> that the claim names.
\<close>

theorem C4_gallery_delete_requests_pins_url:
  "GalleryManager_deleteImage True (Resolved (json_response 200 ''OK''))
      \<lparr>images = [demo_image, demo_image\<lparr>img_id := ''2''\<rparr>], filteredImages = [demo_image]\<rparr>
      demo_image
     = (\<lparr>images = [demo_image\<lparr>img_id := ''2''\<rparr>], filteredImages = []\<rparr>,
        [GalleryFetch ''DELETE'' ''http://localhost:5001/api/pins/1'', CardRemoved ''1'',
         GalleryToastSuccess ''Image deleted successfully!''])
   \<and> map (\<lambda>(url, config). (req_method config, url))
         (fetches_of (trace (snd (ApiService_deleteImage new_ApiService
            (\<lambda>n. (10, Resolved (json_response 200 ''OK''))) ''1'' (fresh_io [])))))
     = [(''DELETE'', ''http://localhost:5001/api/images/1'')]"
  by (simp add: GalleryManager_deleteImage_def Let_def ok_def json_response_def API_BASE_URL_def
        demo_image_def ApiService_deleteImage_def HttpClient_delete_def request_def try_block_def
        fetch_call_def log_event_def clearTimeout_def startsWith_def new_HttpClient_def
        no_config_def no_options_def fresh_io_def spread_def retry_loop.simps timer_delay_def
        new_ApiService_def addResponseInterceptor_def addRequestInterceptor_def
        auth_interceptor_def unauthorized_interceptor_def getAuthToken_def)







text \<open>
  A rejection whose message contains \<^verbatim>\<open>fetch\<close> is not a failure of the item: the upload
  is simulated and the item completes.
\<close>

lemma unreachable_backend_is_simulated:
  "str_includes (err_message e) ''fetch'' \<Longrightarrow>
   uploadFile (Rejected e) item =
     (Inr (MockResult (preview item)
            (if meta_title item \<noteq> [] then meta_title item else file_name item)
            (meta_description item) (meta_tags item) (file_size item) (file_name item)),
      (simulate_progress (item\<lparr>item_status := Uploading\<rparr>))\<lparr>item_status := Completed\<rparr>,
      [StatusShown (item_id item) Uploading,
       UploadFetch ''POST'' (API_BASE_URL @ ''/api/upload''),
       StatusShown (item_id item) Completed,
       ImageUploaded (MockResult (preview item)
            (if meta_title item \<noteq> [] then meta_title item else file_name item)
            (meta_description item) (meta_tags item) (file_size item) (file_name item))])"
  by (simp add: uploadFile_def upload_try_def Let_def)

end
